theory Spec2Isabelle
  imports Main
begin

section \<open>go-chartmuseum: the transport client and the chart operations\<close>

text \<open>
  A shallow embedding of \<^verbatim>\<open>pkg/chartmuseum/client.go\<close> and
  \<^verbatim>\<open>pkg/chartmuseum/charts.go\<close>. Go strings are byte sequences and are modelled by
  \<^typ>\<open>string\<close>. A Go result \<^verbatim>\<open>(*Response, error)\<close> is a pair of options, \<open>None\<close>
  being \<^verbatim>\<open>nil\<close>. Functions of the Go standard library that the package calls
  (\<^verbatim>\<open>url.Parse\<close>, \<^verbatim>\<open>json.Unmarshal\<close>, \<^verbatim>\<open>http.DetectContentType\<close>, ...) are
  fields of an environment record, so every theorem holds for whatever they compute.
\<close>

subsection \<open>Errors\<close>

text \<open>
  An error value records how the source built it: \<^verbatim>\<open>fmt.Errorf(format)\<close> and
  \<^verbatim>\<open>errors.Errorf(format)\<close> called with a format and no operands, \<^verbatim>\<open>errors.New(msg)\<close>,
  \<^verbatim>\<open>errors.Wrap(err, msg)\<close>, \<^verbatim>\<open>fmt.Errorf\<close> with a format and operands (only the format
  is kept), and errors that come out of the standard library or the operating system.
\<close>

datatype gerror =
    fmt_Errorf string
  | errors_Errorf string
  | errors_New string
  | errors_Wrap gerror string
  | fmt_Errorf_operands string
  | External string

text \<open>
  The bytes of a format that \<^verbatim>\<open>fmt.Sprintf\<close> treats as flags, width, precision or
  argument index after a \<^verbatim>\<open>%\<close>; every other ASCII byte there is read as the verb.
\<close>

definition plain_verb :: "char \<Rightarrow> bool" where
  "plain_verb v \<longleftrightarrow> of_char v < (128::nat) \<and> v \<notin> set ''#0+- 123456789[*.''"

text \<open>
  \<^verbatim>\<open>fmt.Sprintf(format)\<close> with no operands, on the formats in which every \<^verbatim>\<open>%\<close> is
  the last byte, or is followed by \<^verbatim>\<open>%\<close> or directly by an ASCII verb. Text is copied,
  \<^verbatim>\<open>%%\<close> gives \<^verbatim>\<open>%\<close>, a verb finds no operand and gives \<^verbatim>\<open>%!v(MISSING)\<close>, and a
  \<^verbatim>\<open>%\<close> at the end gives \<^verbatim>\<open>%!(NOVERB)\<close>. Other formats are outside this model: \<open>None\<close>.
\<close>

fun Sprintf0 :: "string \<Rightarrow> string option" where
  "Sprintf0 [] = Some []"
| "Sprintf0 [c] = (if c = CHR ''%'' then Some ''%!(NOVERB)'' else Some [c])"
| "Sprintf0 (c # v # rest) =
     (if c \<noteq> CHR ''%'' then map_option ((#) c) (Sprintf0 (v # rest))
      else if v = CHR ''%'' then map_option ((#) CHR ''%'') (Sprintf0 rest)
      else if plain_verb v
        then map_option (\<lambda>r. ''%!'' @ [v] @ ''(MISSING)'' @ r) (Sprintf0 rest)
      else None)"

text \<open>
  The text of an error, \<^verbatim>\<open>err.Error()\<close>. An external error carries its text; the text of
  an error formatted from operands is not modelled.
\<close>

fun Error_text :: "gerror \<Rightarrow> string option" where
  "Error_text (fmt_Errorf f) = Sprintf0 f"
| "Error_text (errors_Errorf f) = Sprintf0 f"
| "Error_text (errors_New m) = Some m"
| "Error_text (errors_Wrap e m) = map_option (\<lambda>t. m @ '': '' @ t) (Error_text e)"
| "Error_text (fmt_Errorf_operands f) = None"
| "Error_text (External m) = Some m"

subsection \<open>Data model of client.go\<close>

definition userAgent :: string where
  "userAgent = ''go-chartmuseum''"

definition mediaType :: string where
  "mediaType = ''application/vnd.chartmuseum.v0+json''"

text \<open>\<^verbatim>\<open>url.URL\<close>, with the fields the package and the library's resolution read.\<close>

record URL =
  Scheme :: string
  Opaque :: string
  Host :: string
  Path :: string
  RawPath :: string
  RawQuery :: string
  Fragment :: string

text \<open>\<^verbatim>\<open>context.Context\<close>: \<^verbatim>\<open>ctx.Err()\<close> is non-nil exactly when \<^verbatim>\<open>ctx.Done()\<close> is closed.\<close>

record Context =
  ctx_Err :: "gerror option"

text \<open>
  \<^verbatim>\<open>http.Request\<close>. The body is the byte sequence its reader delivers (\<open>None\<close> for a nil
  body); the header is a map from header names to values.
\<close>

record Request =
  Method :: string
  ReqURL :: string
  Header :: "string \<rightharpoonup> string"
  Body :: "string option"
  ContentLength :: int
  ReqCtx :: "Context option"

text \<open>
  \<^verbatim>\<open>http.Response\<close>: the status code and what \<^verbatim>\<open>ioutil.ReadAll(r.Body)\<close> returns, the
  data slice (\<open>None\<close> for nil) and the error.
\<close>

record HttpResponse =
  StatusCode :: int
  ReadAll :: "string option \<times> gerror option"

record Response =
  http_Response :: HttpResponse
  Message :: string
  Error :: string
  Saved :: bool
  Deleted :: bool
  Healthy :: bool

text \<open>
  The standard library, as far as the package calls it. \<open>url_Parse\<close> is \<^verbatim>\<open>url.Parse\<close>,
  \<open>url_Resolve\<close> is \<^verbatim>\<open>(*URL).Parse\<close>, \<open>url_String\<close> is \<^verbatim>\<open>(*URL).String\<close>, \<open>req_check\<close> is
  the validation of method and URL in \<^verbatim>\<open>http.NewRequest\<close>, \<open>json_Encode\<close> is
  \<^verbatim>\<open>(*json.Encoder).Encode\<close> under the given \<^verbatim>\<open>SetEscapeHTML\<close> setting (\<open>'b\<close> is the type of
  the value to encode), \<open>json_Unmarshal\<close> is \<^verbatim>\<open>json.Unmarshal\<close> into a response (its
  error is dropped by the caller), \<open>DetectContentType\<close> is \<^verbatim>\<open>http.DetectContentType\<close>.
\<close>

record 'b Env =
  url_Parse :: "string \<Rightarrow> gerror + URL"
  url_Resolve :: "URL \<Rightarrow> string \<Rightarrow> gerror + URL"
  url_String :: "URL \<Rightarrow> string"
  req_check :: "string \<Rightarrow> string \<Rightarrow> gerror option"
  json_Encode :: "bool \<Rightarrow> 'b \<Rightarrow> gerror + string"
  json_Unmarshal :: "string \<Rightarrow> Response \<Rightarrow> Response"
  DetectContentType :: "string \<Rightarrow> string"

text \<open>
  The client. \<open>httpClient\<close> is \<^verbatim>\<open>(*http.Client).Do\<close> of the injected transport: an error
  or a response. The fields \<^verbatim>\<open>common\<close> and \<^verbatim>\<open>ChartService\<close> point back to the client itself;
  the chart operations take the client as an argument instead.
\<close>

record Client =
  BaseURL :: URL
  UserAgent :: string
  httpClient :: "Request \<Rightarrow> gerror + HttpResponse"

definition HasSuffix :: "string \<Rightarrow> string \<Rightarrow> bool" where
  "HasSuffix s suffix \<longleftrightarrow>
     length suffix \<le> length s \<and> drop (length s - length suffix) s = suffix"

subsection \<open>Operations of client.go\<close>

definition NewClient ::
  "'b Env \<Rightarrow> string \<Rightarrow> (Request \<Rightarrow> gerror + HttpResponse) option
     \<Rightarrow> (Request \<Rightarrow> gerror + HttpResponse) \<Rightarrow> gerror + Client" where
  "NewClient env baseURL httpClient' DefaultClient =
     (if baseURL = '''' then Inl (fmt_Errorf ''ChartMuseum API - base URL can not be blank'')
      else case url_Parse env baseURL of
        Inl err \<Rightarrow> Inl err
      | Inr baseEndpoint \<Rightarrow>
          let baseEndpoint1 =
                (if \<not> HasSuffix (Path baseEndpoint) ''/''
                 then baseEndpoint\<lparr>Path := Path baseEndpoint @ ''/''\<rparr>
                 else baseEndpoint);
              hc = (case httpClient' of None \<Rightarrow> DefaultClient | Some h \<Rightarrow> h)
          in Inr \<lparr>BaseURL = baseEndpoint1, UserAgent = userAgent, httpClient = hc\<rparr>)"

text \<open>
  \<^verbatim>\<open>http.NewRequest\<close>: after the library's validation, a request with the method (the
  empty method is \<^verbatim>\<open>GET\<close>), the URL, an empty header and the body. \<open>len\<close> is the content
  length the library reads off the body (the length of a \<^verbatim>\<open>bytes.Buffer\<close>, 0 otherwise).
\<close>

definition http_NewRequest ::
  "'b Env \<Rightarrow> string \<Rightarrow> string \<Rightarrow> string option \<Rightarrow> int \<Rightarrow> gerror + Request" where
  "http_NewRequest env method url body len =
     (case req_check env method url of
        Some err \<Rightarrow> Inl err
      | None \<Rightarrow> Inr \<lparr>Method = (if method = '''' then ''GET'' else method), ReqURL = url,
                     Header = Map.empty, Body = body, ContentLength = len, ReqCtx = None\<rparr>)"

definition Header_Set :: "Request \<Rightarrow> string \<Rightarrow> string \<Rightarrow> Request" where
  "Header_Set req k v = req\<lparr>Header := (Header req)(k \<mapsto> v)\<rparr>"

definition NewRequest ::
  "'b Env \<Rightarrow> Client \<Rightarrow> string \<Rightarrow> string \<Rightarrow> 'b option \<Rightarrow> gerror + Request" where
  "NewRequest env c method urlStr body =
     (if \<not> HasSuffix (Path (BaseURL c)) ''/''
      then Inl (fmt_Errorf_operands ''BaseURL must have a trailing slash, but %q does not'')
      else case url_Resolve env (BaseURL c) urlStr of
        Inl err \<Rightarrow> Inl err
      | Inr u \<Rightarrow>
         (case (case body of None \<Rightarrow> Inr None
                | Some b \<Rightarrow> (case json_Encode env False b of
                               Inl err \<Rightarrow> Inl err | Inr bytes \<Rightarrow> Inr (Some bytes))) of
            Inl err \<Rightarrow> Inl err
          | Inr buf \<Rightarrow>
             (case http_NewRequest env method (url_String env u) buf
                     (case buf of None \<Rightarrow> 0 | Some bytes \<Rightarrow> int (length bytes)) of
                Inl err \<Rightarrow> Inl err
              | Inr req \<Rightarrow>
                  let req1 = (if body \<noteq> None
                              then Header_Set req ''Content-Type'' ''application/json''
                              else req);
                      req2 = Header_Set req1 ''Accept'' mediaType;
                      req3 = (if UserAgent c \<noteq> ''''
                              then Header_Set req2 ''User-Agent'' (UserAgent c)
                              else req2)
                  in Inr req3)))"

definition parseResponse :: "'b Env \<Rightarrow> HttpResponse \<Rightarrow> Response option \<times> gerror option" where
  "parseResponse env r =
     (let response0 = \<lparr>http_Response = r, Message = '''', Error = '''', Saved = False,
                        Deleted = False, Healthy = False\<rparr>;
          response = (case ReadAll r of
                        (Some data, None) \<Rightarrow> json_Unmarshal env data response0
                      | _ \<Rightarrow> response0)
      in if 200 \<le> StatusCode r \<and> StatusCode r \<le> 299 then (Some response, None)
         else (Some response, Some (fmt_Errorf (Error response))))"

definition Do ::
  "'b Env \<Rightarrow> Client \<Rightarrow> Context \<Rightarrow> Request \<Rightarrow> Response option \<times> gerror option" where
  "Do env c ctx req =
     (case httpClient c (req\<lparr>ReqCtx := Some ctx\<rparr>) of
        Inl err \<Rightarrow> (case ctx_Err ctx of
                      Some cerr \<Rightarrow> (None, Some cerr)
                    | None \<Rightarrow> (None, Some err))
      | Inr resp \<Rightarrow> parseResponse env resp)"

definition NewUploadRequest ::
  "'b Env \<Rightarrow> Client \<Rightarrow> string \<Rightarrow> string \<Rightarrow> int \<Rightarrow> string \<Rightarrow> gerror + Request" where
  "NewUploadRequest env c urlStr reader size' mediaType' =
     (if \<not> HasSuffix (Path (BaseURL c)) ''/''
      then Inl (fmt_Errorf_operands ''base URL must have a trailing slash, but %q does not'')
      else case url_Resolve env (BaseURL c) urlStr of
        Inl err \<Rightarrow> Inl err
      | Inr u \<Rightarrow>
         (case http_NewRequest env ''POST'' (url_String env u) (Some reader) 0 of
            Inl err \<Rightarrow> Inl err
          | Inr req \<Rightarrow>
              let req1 = req\<lparr>ContentLength := size'\<rparr>;
                  req2 = Header_Set req1 ''Content-Type'' mediaType';
                  req3 = Header_Set req2 ''User-Agent'' (UserAgent c)
              in Inr req3))"

subsection \<open>Files\<close>

text \<open>
  An open \<^verbatim>\<open>*os.File\<close>: what \<^verbatim>\<open>Stat\<close> returns, the bytes of the file, the read offset of
  the handle, an I/O error that \<^verbatim>\<open>Read\<close> meets (if any), whether the handle can seek (a
  pipe cannot), and the calls made on the handle so far, oldest first.
\<close>

datatype file_op = OpStat | OpRead nat | OpSeek int int

record FileInfo =
  IsDir :: bool
  Size :: int

record File =
  stat :: "gerror + FileInfo"
  contents :: string
  offset :: nat
  read_fault :: "gerror option"
  seekable :: bool
  ops :: "file_op list"

definition file_Stat :: "File \<Rightarrow> (gerror + FileInfo) \<times> File" where
  "file_Stat f = (stat f, f\<lparr>ops := ops f @ [OpStat]\<rparr>)"

text \<open>
  \<^verbatim>\<open>file.Read(b)\<close> with \<open>n = len(b) > 0\<close>: an I/O error or the end of the file gives no
  bytes and an error and leaves the offset; otherwise up to \<open>n\<close> bytes from the offset on
  are returned and the offset moves past them.
\<close>

definition file_Read :: "nat \<Rightarrow> File \<Rightarrow> (string \<times> gerror option) \<times> File" where
  "file_Read n f =
     (let f1 = f\<lparr>ops := ops f @ [OpRead n]\<rparr> in
      case read_fault f of
        Some err \<Rightarrow> (('''', Some err), f1)
      | None \<Rightarrow>
          if length (contents f) \<le> offset f then (('''', Some (External ''EOF'')), f1)
          else let bs = take n (drop (offset f) (contents f))
               in ((bs, None), f1\<lparr>offset := offset f + length bs\<rparr>))"

text \<open>\<^verbatim>\<open>file.Seek(0, 0)\<close>: back to the start, or an error on a handle that cannot seek.\<close>

definition file_Seek0 :: "File \<Rightarrow> gerror option \<times> File" where
  "file_Seek0 f =
     (let f1 = f\<lparr>ops := ops f @ [OpSeek 0 0]\<rparr> in
      if seekable f then (None, f1\<lparr>offset := 0\<rparr>)
      else (Some (External ''seek: illegal seek''), f1))"

text \<open>The bytes a reader of the handle delivers from now on.\<close>

definition file_stream :: "File \<Rightarrow> string" where
  "file_stream f = drop (offset f) (contents f)"

subsection \<open>charts.go\<close>

text \<open>\<^verbatim>\<open>ChartInfo\<close>: four pointers to strings, \<open>None\<close> being the nil pointer.\<close>

record ChartInfo =
  Name :: "string option"
  Version :: "string option"
  Org :: "string option"
  Repo :: "string option"

text \<open>A call either panics (a nil pointer is dereferenced) or returns.\<close>

datatype 'a outcome = Panic | Return 'a

text \<open>What an operation does to the outside: requests it builds, requests it sends.\<close>

datatype event = Built Request | Sent Request

fun ChartInfo_String :: "ChartInfo \<Rightarrow> string outcome" where
  "ChartInfo_String c =
     (case (Name c, Version c) of
        (Some name, Some version) \<Rightarrow>
          (let s = name @ ''-'' @ version in
           case Org c of
             None \<Rightarrow> Panic
           | Some org \<Rightarrow>
              if org \<noteq> '''' then
                (case Repo c of None \<Rightarrow> Panic
                 | Some repo \<Rightarrow> Return (org @ ''/'' @ repo @ ''/'' @ s))
              else
                (case Repo c of None \<Rightarrow> Panic
                 | Some repo \<Rightarrow> if repo \<noteq> '''' then Return (repo @ ''/'' @ s) else Return s))
      | _ \<Rightarrow> Panic)"

text \<open>
  \<^verbatim>\<open>detectContentType\<close>: the buffer is 512 zero bytes, of which \<^verbatim>\<open>Read\<close> overwrites the
  first ones.
\<close>

definition detectContentType :: "'b Env \<Rightarrow> File \<Rightarrow> (string \<times> gerror option) \<times> File" where
  "detectContentType env file =
     (case file_Read 512 file of
        ((bs, Some err), file1) \<Rightarrow> ((''application/octet-stream'', Some err), file1)
      | ((bs, None), file1) \<Rightarrow>
          let buffer = bs @ replicate (512 - length bs) (CHR 0x00);
              file2 = snd (file_Seek0 file1)
          in ((DetectContentType env buffer, None), file2))"

type_synonym result = "(Response option \<times> gerror option) \<times> File \<times> event list"

definition uploadChartHelper ::
  "'b Env \<Rightarrow> Client \<Rightarrow> Context \<Rightarrow> string \<Rightarrow> File \<Rightarrow> result" where
  "uploadChartHelper env client ctx u file =
     (case file_Stat file of
        (Inl err, file1) \<Rightarrow> ((None, Some (errors_Wrap err ''Unable to access file'')), file1, [])
      | (Inr st, file1) \<Rightarrow>
          if IsDir st
          then ((None, Some (errors_New ''Chart to upload can't be a directory'')), file1, [])
          else
            (case detectContentType env file1 of
               ((mediaType', _), file2) \<Rightarrow>
                 (case NewUploadRequest env client u (file_stream file2) (Size st) mediaType' of
                    Inl err \<Rightarrow>
                      ((None, Some (errors_Wrap err ''Failed creating upload request'')), file2, [])
                  | Inr req \<Rightarrow>
                      (case Do env client ctx req of
                         (resp, Some err) \<Rightarrow>
                           ((resp, Some (errors_Wrap err ''Failed to do upload request'')), file2,
                            [Built req, Sent (req\<lparr>ReqCtx := Some ctx\<rparr>)])
                       | (resp, None) \<Rightarrow>
                           ((resp, None), file2,
                            [Built req, Sent (req\<lparr>ReqCtx := Some ctx\<rparr>)])))))"

definition deleteChartHelper ::
  "'b Env \<Rightarrow> Client \<Rightarrow> Context \<Rightarrow> string
     \<Rightarrow> (Response option \<times> gerror option) \<times> event list" where
  "deleteChartHelper env client ctx u =
     (case NewRequest env client ''DELETE'' u None of
        Inl err \<Rightarrow> ((None, Some (errors_Wrap err ''Failed creating delete request'')), [])
      | Inr req \<Rightarrow>
          (case Do env client ctx req of
             (resp, Some err) \<Rightarrow>
               ((resp, Some (errors_Wrap err ''Failed to do delete request'')),
                [Built req, Sent (req\<lparr>ReqCtx := Some ctx\<rparr>)])
           | (resp, None) \<Rightarrow>
               ((resp, None), [Built req, Sent (req\<lparr>ReqCtx := Some ctx\<rparr>)])))"

definition UploadChart ::
  "'b Env \<Rightarrow> Client \<Rightarrow> Context \<Rightarrow> ChartInfo \<Rightarrow> File \<Rightarrow> result outcome" where
  "UploadChart env client ctx c file =
     (case Org c of
        None \<Rightarrow> Panic
      | Some org \<Rightarrow>
          if org \<noteq> '''' then
            (case Repo c of
               None \<Rightarrow> Panic
             | Some repo \<Rightarrow>
                 if repo = ''''
                 then Return ((None, Some (errors_Errorf ''Repo required if Org is provided'')),
                              file, [])
                 else Return (uploadChartHelper env client ctx
                                (''api/'' @ org @ ''/'' @ repo @ ''/charts'') file))
          else
            (case Repo c of
               None \<Rightarrow> Panic
             | Some repo \<Rightarrow>
                 if repo \<noteq> ''''
                 then Return (uploadChartHelper env client ctx
                                (''api/'' @ repo @ ''/charts'') file)
                 else Return (uploadChartHelper env client ctx ''api/charts'' file)))"

definition DeleteChart ::
  "'b Env \<Rightarrow> Client \<Rightarrow> Context \<Rightarrow> ChartInfo
     \<Rightarrow> ((Response option \<times> gerror option) \<times> event list) outcome" where
  "DeleteChart env client ctx c =
     (case (Name c, Version c) of
        (Some name, Some version) \<Rightarrow>
          (case Org c of
             None \<Rightarrow> Panic
           | Some org \<Rightarrow>
               if org \<noteq> '''' then
                 (case Repo c of
                    None \<Rightarrow> Panic
                  | Some repo \<Rightarrow>
                      if repo = ''''
                      then Return ((None,
                                    Some (errors_Errorf ''Repo required if Org is provided'')), [])
                      else Return (deleteChartHelper env client ctx
                                     (''api/'' @ org @ ''/'' @ repo @ ''/charts/'' @ name
                                        @ ''/'' @ version)))
               else
                 (case Repo c of
                    None \<Rightarrow> Panic
                  | Some repo \<Rightarrow>
                      if repo \<noteq> ''''
                      then Return (deleteChartHelper env client ctx
                                     (''api/'' @ repo @ ''/charts/'' @ name @ ''/'' @ version))
                      else Return (deleteChartHelper env client ctx
                                     (''api/charts/'' @ name @ ''/'' @ version))))
      | _ \<Rightarrow> Panic)"

subsection \<open>Concrete inputs\<close>

text \<open>
  A small standard library to evaluate the operations on: URLs are paths, resolution
  appends the reference, every request is well-formed, and the JSON decoder knows one
  body, \<^verbatim>\<open>{"error":"100%"}\<close>.
\<close>

definition env0 :: "unit Env" where
  "env0 = \<lparr>url_Parse = (\<lambda>s. if s = ''%'' then Inl (External ''invalid URL escape'')
                              else Inr \<lparr>Scheme = '''', Opaque = '''', Host = '''', Path = s,
                                        RawPath = '''', RawQuery = '''', Fragment = ''''\<rparr>),
           url_Resolve = (\<lambda>u ref. Inr (u\<lparr>Path := Path u @ ref\<rparr>)),
           url_String = (\<lambda>u. Path u),
           req_check = (\<lambda>m u. None),
           json_Encode = (\<lambda>esc b. Inr ''null''),
           json_Unmarshal = (\<lambda>data r. if data = ''{\"error\":\"100%\"}''
                                        then r\<lparr>Error := ''100%''\<rparr> else r),
           DetectContentType = (\<lambda>b. ''application/octet-stream'')\<rparr>"

definition url0 :: URL where
  "url0 = \<lparr>Scheme = '''', Opaque = '''', Host = '''', Path = ''/'', RawPath = '''',
           RawQuery = '''', Fragment = ''''\<rparr>"

text \<open>A transport that fails, and one that answers every request with an empty 200.\<close>

definition transport_down :: "Request \<Rightarrow> gerror + HttpResponse" where
  "transport_down req = Inl (External ''connection refused'')"

definition transport_ok :: "Request \<Rightarrow> gerror + HttpResponse" where
  "transport_ok req = Inr \<lparr>StatusCode = 200, ReadAll = (Some '''', None)\<rparr>"

definition client_down :: Client where
  "client_down = \<lparr>BaseURL = url0, UserAgent = userAgent, httpClient = transport_down\<rparr>"

definition client_ok :: Client where
  "client_ok = \<lparr>BaseURL = url0, UserAgent = userAgent, httpClient = transport_ok\<rparr>"

definition ctx_background :: Context where
  "ctx_background = \<lparr>ctx_Err = None\<rparr>"

definition ctx_canceled :: Context where
  "ctx_canceled = \<lparr>ctx_Err = Some (External ''context canceled'')\<rparr>"

definition resp500 :: HttpResponse where
  "resp500 = \<lparr>StatusCode = 500, ReadAll = (Some ''{\"error\":\"100%\"}'', None)\<rparr>"

definition chart_bad :: ChartInfo where
  "chart_bad = \<lparr>Name = Some ''demo'', Version = Some ''1.0.0'', Org = Some ''acme'', Repo = Some ''''\<rparr>"

definition chart_scoped :: ChartInfo where
  "chart_scoped = \<lparr>Name = Some ''demo'', Version = Some ''1.0.0'', Org = Some ''acme'',
                    Repo = Some ''stable''\<rparr>"

definition file0 :: File where
  "file0 = \<lparr>stat = Inr \<lparr>IsDir = False, Size = 3\<rparr>, contents = ''abc'', offset = 0,
            read_fault = None, seekable = True, ops = []\<rparr>"


definition file_empty :: File where
  "file_empty = \<lparr>stat = Inr \<lparr>IsDir = False, Size = 0\<rparr>, contents = '''', offset = 0,
                  read_fault = None, seekable = True, ops = []\<rparr>"

definition dir0 :: File where
  "dir0 = \<lparr>stat = Inr \<lparr>IsDir = True, Size = 4096\<rparr>, contents = '''', offset = 0,
           read_fault = Some (External ''read: is a directory''), seekable = True, ops = []\<rparr>"


definition upload_req_empty :: Request where
  "upload_req_empty = \<lparr>Method = ''POST'', ReqURL = ''/api/charts'',
                        Header = [''Content-Type'' \<mapsto> ''application/octet-stream'',
                                  ''User-Agent'' \<mapsto> ''go-chartmuseum''],
                        Body = Some '''', ContentLength = 0, ReqCtx = None\<rparr>"

definition delete_req0 :: Request where
  "delete_req0 = \<lparr>Method = ''DELETE'', ReqURL = ''/api/charts/demo/1.0.0'',
                   Header = [''Accept'' \<mapsto> ''application/vnd.chartmuseum.v0+json''],
                   Body = None, ContentLength = 0, ReqCtx = None\<rparr>"

definition json_req0 :: Request where
  "json_req0 = \<lparr>Method = ''POST'', ReqURL = ''/api/charts'',
                 Header = [''Content-Type'' \<mapsto> ''application/json'',
                           ''Accept'' \<mapsto> ''application/vnd.chartmuseum.v0+json'',
                           ''User-Agent'' \<mapsto> ''go-chartmuseum''],
                 Body = Some ''null'', ContentLength = 4, ReqCtx = None\<rparr>"

section \<open>Properties\<close>

subsection \<open>Classification of responses\<close>

text \<open>The envelope \<^verbatim>\<open>parseResponse\<close> decodes: the decoder runs when the body was read.\<close>

lemma parseResponse_envelope:
  "fst (parseResponse env r) =
     Some (case ReadAll r of
             (Some data, None) \<Rightarrow>
               json_Unmarshal env data
                 \<lparr>http_Response = r, Message = '''', Error = '''', Saved = False,
                    Deleted = False, Healthy = False\<rparr>
           | _ \<Rightarrow> \<lparr>http_Response = r, Message = '''', Error = '''', Saved = False,
                     Deleted = False, Healthy = False\<rparr>)"
  by (simp add: parseResponse_def Let_def)

lemma parseResponse_2xx:
  "200 \<le> StatusCode r \<Longrightarrow> StatusCode r \<le> 299 \<Longrightarrow> snd (parseResponse env r) = None"
  by (simp add: parseResponse_def Let_def)

lemma parseResponse_other:
  "\<not> (200 \<le> StatusCode r \<and> StatusCode r \<le> 299) \<Longrightarrow>
     \<exists>response. parseResponse env r = (Some response, Some (fmt_Errorf (Error response)))"
  by (simp add: parseResponse_def Let_def)

lemma Sprintf0_no_percent: "CHR ''%'' \<notin> set f \<Longrightarrow> Sprintf0 f = Some f"
  by (induction f rule: Sprintf0.induct) auto

text \<open>
  C1. For a status in 200..299 \<^verbatim>\<open>parseResponse\<close> returns the decoded envelope and no
  error, and for any other status the envelope and a non-nil error
  (\<open>parseResponse_envelope\<close>, \<open>parseResponse_2xx\<close>, \<open>parseResponse_other\<close>). The error is
  \<^verbatim>\<open>fmt.Errorf(response.Error)\<close>: the error field is the format, so the text of the error
  is the field only where formatting leaves it alone (\<open>Sprintf0_no_percent\<close>). On the
  status 500 with the body \<^verbatim>\<open>{"error":"100%"}\<close> the envelope's error field is
  \<^verbatim>\<open>100%\<close> and the text of the returned error is \<^verbatim>\<open>100%!(NOVERB)\<close>.
\<close>

theorem parseResponse_error_text_differs:
  "map_option Error (fst (parseResponse env0 resp500)) = Some ''100%'' \<and>
   map_option Error_text (snd (parseResponse env0 resp500)) = Some (Some ''100%!(NOVERB)'')"
  by (simp add: parseResponse_def env0_def resp500_def)

subsection \<open>Transport failures\<close>

text \<open>
  C6. When the transport returns an error, \<^verbatim>\<open>Do\<close> returns no response and the context's
  error if the context is done, the transport's error if it is not.
\<close>

theorem Do_transport_error:
  "httpClient c (req\<lparr>ReqCtx := Some ctx\<rparr>) = Inl err \<Longrightarrow>
     (\<forall>cerr. ctx_Err ctx = Some cerr \<longrightarrow> Do env c ctx req = (None, Some cerr)) \<and>
     (ctx_Err ctx = None \<longrightarrow> Do env c ctx req = (None, Some err))"
  by (simp add: Do_def)

theorem Do_transport_error_witness:
  "Do env0 client_down ctx_canceled
      \<lparr>Method = ''DELETE'', ReqURL = ''/api/charts/demo/1.0.0'', Header = Map.empty,
         Body = None, ContentLength = 0, ReqCtx = None\<rparr>
     = (None, Some (External ''context canceled'')) \<and>
   Do env0 client_down ctx_background
      \<lparr>Method = ''DELETE'', ReqURL = ''/api/charts/demo/1.0.0'', Header = Map.empty,
         Body = None, ContentLength = 0, ReqCtx = None\<rparr>
     = (None, Some (External ''connection refused''))"
proof -
  let ?req = "\<lparr>Method = ''DELETE'', ReqURL = ''/api/charts/demo/1.0.0'', Header = Map.empty,
                Body = None, ContentLength = 0, ReqCtx = None\<rparr>"
  have down: "\<And>ctx. httpClient client_down (?req\<lparr>ReqCtx := Some ctx\<rparr>)
                 = Inl (External ''connection refused'')"
    by (simp add: client_down_def transport_down_def)
  have c1: "ctx_Err ctx_canceled = Some (External ''context canceled'')"
    by (simp add: ctx_canceled_def)
  have c2: "ctx_Err ctx_background = None"
    by (simp add: ctx_background_def)
  from Do_transport_error [OF down, of ctx_canceled env0] c1
  have a: "Do env0 client_down ctx_canceled ?req = (None, Some (External ''context canceled''))"
    by blast
  from Do_transport_error [OF down, of ctx_background env0] c2
  have b: "Do env0 client_down ctx_background ?req
             = (None, Some (External ''connection refused''))"
    by blast
  from a b show ?thesis by simp
qed

subsection \<open>Chart operations: validation, paths, nil pointers\<close>

text \<open>
  C2. For a \<^verbatim>\<open>ChartInfo\<close> whose org is non-empty and whose repo is the empty string,
  \<^verbatim>\<open>UploadChart\<close> (whatever name and version are) and \<^verbatim>\<open>DeleteChart\<close> (for all name and
  version strings) return the validation error: no request is built or sent, and the
  file handle is not touched.
\<close>

theorem org_without_repo_rejected:
  "Org c = Some org \<Longrightarrow> org \<noteq> '''' \<Longrightarrow> Repo c = Some '''' \<Longrightarrow>
     UploadChart env client ctx c fh
       = Return ((None, Some (errors_Errorf ''Repo required if Org is provided'')), fh, []) \<and>
     (\<forall>name version. Name c = Some name \<longrightarrow> Version c = Some version \<longrightarrow>
        DeleteChart env client ctx c
          = Return ((None, Some (errors_Errorf ''Repo required if Org is provided'')), []))"
  by (simp add: UploadChart_def DeleteChart_def)

theorem org_without_repo_rejected_witness:
  "UploadChart env0 client_ok ctx_background chart_bad file0
       = Return ((None, Some (errors_Errorf ''Repo required if Org is provided'')), file0, []) \<and>
   DeleteChart env0 client_ok ctx_background chart_bad
       = Return ((None, Some (errors_Errorf ''Repo required if Org is provided'')), [])"
  using org_without_repo_rejected [where c = chart_bad and org = "''acme''" and env = env0
                       and client = client_ok and ctx = ctx_background and fh = file0]
  by (simp add: chart_bad_def)

text \<open>
  C3. For a valid \<^verbatim>\<open>ChartInfo\<close> (no nil pointer, a repo wherever there is an org) the
  path handed on by upload is \<^verbatim>\<open>api/{org}/{repo}/charts\<close> when org is set,
  \<^verbatim>\<open>api/{repo}/charts\<close> when only repo is set and \<^verbatim>\<open>api/charts\<close> otherwise; the path of
  delete is the same with \<^verbatim>\<open>/{name}/{version}\<close> appended.
\<close>

theorem chart_paths:
  assumes "Name c = Some name" and "Version c = Some version"
    and "Org c = Some org" and "Repo c = Some repo"
    and "org \<noteq> '''' \<longrightarrow> repo \<noteq> ''''"
  shows "UploadChart env client ctx c fh
           = Return (uploadChartHelper env client ctx
                (if org \<noteq> '''' then ''api/'' @ org @ ''/'' @ repo @ ''/charts''
                 else if repo \<noteq> '''' then ''api/'' @ repo @ ''/charts''
                 else ''api/charts'') fh) \<and>
         DeleteChart env client ctx c
           = Return (deleteChartHelper env client ctx
                ((if org \<noteq> '''' then ''api/'' @ org @ ''/'' @ repo @ ''/charts''
                  else if repo \<noteq> '''' then ''api/'' @ repo @ ''/charts''
                  else ''api/charts'') @ ''/'' @ name @ ''/'' @ version))"
  using assms by (simp add: UploadChart_def DeleteChart_def)

theorem chart_paths_witness:
  "UploadChart env0 client_ok ctx_background chart_scoped file0
     = Return (uploadChartHelper env0 client_ok ctx_background ''api/acme/stable/charts'' file0) \<and>
   DeleteChart env0 client_ok ctx_background chart_scoped
     = Return (deleteChartHelper env0 client_ok ctx_background
                 ''api/acme/stable/charts/demo/1.0.0'')"
  using chart_paths [where c = chart_scoped and name = "''demo''" and version = "''1.0.0''"
                       and org = "''acme''" and repo = "''stable''" and env = env0
                       and client = client_ok and ctx = ctx_background and fh = file0]
  by (simp add: chart_scoped_def)

text \<open>
  C9. \<^verbatim>\<open>UploadChart\<close> dereferences \<^verbatim>\<open>Org\<close> and \<^verbatim>\<open>Repo\<close>, \<^verbatim>\<open>DeleteChart\<close> and
  \<^verbatim>\<open>ChartInfo.String\<close> dereference all four fields: each panics exactly when one of
  those pointers is nil, so an absent org or repo is a pointer to the empty string.
\<close>

theorem nil_pointer_panics:
  "(UploadChart env client ctx c fh = Panic \<longleftrightarrow> Org c = None \<or> Repo c = None) \<and>
   (DeleteChart env client ctx c = Panic \<longleftrightarrow>
      Name c = None \<or> Version c = None \<or> Org c = None \<or> Repo c = None) \<and>
   (ChartInfo_String c = Panic \<longleftrightarrow>
      Name c = None \<or> Version c = None \<or> Org c = None \<or> Repo c = None)"
  by (auto simp add: UploadChart_def DeleteChart_def split: option.splits)

subsection \<open>The file handle during upload\<close>


lemma file_Read_ok:
  "snd (fst (file_Read n fh)) = None \<Longrightarrow>
     file_Read n fh = ((take n (drop (offset fh) (contents fh)), None),
                       fh\<lparr>ops := ops fh @ [OpRead n],
                          offset := offset fh + length (take n (drop (offset fh) (contents fh)))\<rparr>)"
  by (simp add: file_Read_def Let_def split: option.splits if_splits)

lemma file_Read_fail:
  "snd (fst (file_Read n fh)) = Some err \<Longrightarrow>
     file_Read n fh = (('''', Some err), fh\<lparr>ops := ops fh @ [OpRead n]\<rparr>)"
  by (simp add: file_Read_def Let_def split: option.splits if_splits)

lemma file_Read_ops [simp]: "file_Read n (fh\<lparr>ops := os\<rparr>) =
   (fst (file_Read n fh), (snd (file_Read n fh))\<lparr>ops := os @ [OpRead n]\<rparr>)"
  by (simp add: file_Read_def Let_def split: option.splits if_splits)


lemma file_Stat_simps [simp]: "file_Stat fh = (stat fh, fh\<lparr>ops := ops fh @ [OpStat]\<rparr>)"
  by (simp add: file_Stat_def)

lemma detectContentType_ok:
  assumes "snd (fst (file_Read 512 fh)) = None"
  shows "detectContentType env fh =
           ((DetectContentType env
               (take 512 (drop (offset fh) (contents fh))
                  @ replicate (512 - length (take 512 (drop (offset fh) (contents fh))))
                      (CHR 0x00)), None),
            fh\<lparr>ops := ops fh @ [OpRead 512, OpSeek 0 0],
               offset := (if seekable fh then 0
                          else offset fh + length (take 512 (drop (offset fh) (contents fh))))\<rparr>)"
  using file_Read_ok [OF assms]
  by (simp add: detectContentType_def file_Seek0_def Let_def)

lemma detectContentType_fail:
  assumes "snd (fst (file_Read 512 fh)) = Some err"
  shows "detectContentType env fh =
           ((''application/octet-stream'', Some err), fh\<lparr>ops := ops fh @ [OpRead 512]\<rparr>)"
  using file_Read_fail [OF assms]
  by (simp add: detectContentType_def)






text \<open>
  C8. When \<^verbatim>\<open>Stat\<close> reports a directory the upload fails with the directory error, having
  made no call on the handle but \<^verbatim>\<open>Stat\<close> (no byte is read) and built no request. That
  error is returned for directories only: for every other handle the check passes, and
  the next call on the handle is the sniff read.
\<close>

theorem upload_directory_rejected:
  "(\<forall>st. stat fh = Inr st \<longrightarrow> IsDir st \<longrightarrow>
      uploadChartHelper env client ctx u fh
        = ((None, Some (errors_New ''Chart to upload can't be a directory'')),
           fh\<lparr>ops := ops fh @ [OpStat]\<rparr>, [])) \<and>
   (snd (fst (uploadChartHelper env client ctx u fh))
        = Some (errors_New ''Chart to upload can't be a directory'')
      \<longleftrightarrow> (\<exists>st. stat fh = Inr st \<and> IsDir st)) \<and>
   (\<forall>st. stat fh = Inr st \<longrightarrow> \<not> IsDir st \<longrightarrow>
      take (length (ops fh) + 2) (ops (fst (snd (uploadChartHelper env client ctx u fh))))
        = ops fh @ [OpStat, OpRead 512])"
proof -
  have ops_after: "take (Suc (Suc (length os))) (ops (snd (detectContentType env (fh\<lparr>ops := os @ [OpStat]\<rparr>))))
      = os @ [OpStat, OpRead 512]" for os
  proof (cases "snd (fst (file_Read 512 fh))")
    case None
    then have "snd (fst (file_Read 512 (fh\<lparr>ops := os @ [OpStat]\<rparr>))) = None" by simp
    from detectContentType_ok [OF this, of env] show ?thesis by simp
  next
    case (Some err)
    then have "snd (fst (file_Read 512 (fh\<lparr>ops := os @ [OpStat]\<rparr>))) = Some err" by simp
    from detectContentType_fail [OF this, of env] show ?thesis by simp
  qed
  show ?thesis
  proof (cases "stat fh")
    case (Inl err)
    then show ?thesis by (simp add: uploadChartHelper_def)
  next
    case (Inr st)
    show ?thesis
    proof (cases "IsDir st")
      case True
      with Inr show ?thesis by (simp add: uploadChartHelper_def)
    next
      case False
      with Inr ops_after [of "ops fh"] show ?thesis
        by (auto simp add: uploadChartHelper_def split: prod.splits sum.splits option.splits)
    qed
  qed
qed

theorem upload_directory_rejected_witness:
  "uploadChartHelper env0 client_ok ctx_background ''api/charts'' dir0
     = ((None, Some (errors_New ''Chart to upload can't be a directory'')),
        dir0\<lparr>ops := [OpStat]\<rparr>, []) \<and>
   snd (fst (uploadChartHelper env0 client_ok ctx_background ''api/charts'' file0))
     \<noteq> Some (errors_New ''Chart to upload can't be a directory'') \<and>
   take 2 (ops (fst (snd (uploadChartHelper env0 client_ok ctx_background ''api/charts'' file0))))
     = [OpStat, OpRead 512]"
proof -
  have d: "stat dir0 = Inr \<lparr>IsDir = True, Size = 4096\<rparr>" "ops dir0 = []"
    and f: "stat file0 = Inr \<lparr>IsDir = False, Size = 3\<rparr>" "ops file0 = []"
    by (simp_all add: dir0_def file0_def)
  from upload_directory_rejected [of dir0 env0 client_ok ctx_background "''api/charts''"] d
  have 1: "uploadChartHelper env0 client_ok ctx_background ''api/charts'' dir0
     = ((None, Some (errors_New ''Chart to upload can't be a directory'')),
        dir0\<lparr>ops := [OpStat]\<rparr>, [])"
    by simp
  from upload_directory_rejected [of file0 env0 client_ok ctx_background "''api/charts''"] f
  have 2: "snd (fst (uploadChartHelper env0 client_ok ctx_background ''api/charts'' file0))
     \<noteq> Some (errors_New ''Chart to upload can't be a directory'')"
    and 3: "take 2 (ops (fst (snd (uploadChartHelper env0 client_ok ctx_background ''api/charts'' file0))))
     = [OpStat, OpRead 512]"
    by (simp_all add: numeral_2_eq_2)
  from 1 2 3 show ?thesis by simp
qed

text \<open>
  C10. When the sniff read fails, \<^verbatim>\<open>detectContentType\<close> returns
  \<^verbatim>\<open>application/octet-stream\<close> with the error after the read alone (no seek, the offset is
  untouched), and \<^verbatim>\<open>uploadChartHelper\<close> drops the error: it goes on to build and send
  the request with that content type, and its result is the result of that request.
\<close>

theorem sniff_failure_ignored:
  assumes "snd (fst (file_Read 512 fh)) = Some err"
  shows "detectContentType env fh
           = ((''application/octet-stream'', Some err), fh\<lparr>ops := ops fh @ [OpRead 512]\<rparr>) \<and>
         (\<forall>st. stat fh = Inr st \<longrightarrow> \<not> IsDir st \<longrightarrow>
            uploadChartHelper env client ctx u fh =
              (case NewUploadRequest env client u (file_stream fh) (Size st)
                      ''application/octet-stream'' of
                 Inl e \<Rightarrow> ((None, Some (errors_Wrap e ''Failed creating upload request'')),
                            fh\<lparr>ops := ops fh @ [OpStat, OpRead 512]\<rparr>, [])
               | Inr req \<Rightarrow>
                  (case Do env client ctx req of
                     (resp, Some e) \<Rightarrow>
                       ((resp, Some (errors_Wrap e ''Failed to do upload request'')),
                        fh\<lparr>ops := ops fh @ [OpStat, OpRead 512]\<rparr>,
                        [Built req, Sent (req\<lparr>ReqCtx := Some ctx\<rparr>)])
                   | (resp, None) \<Rightarrow>
                       ((resp, None), fh\<lparr>ops := ops fh @ [OpStat, OpRead 512]\<rparr>,
                        [Built req, Sent (req\<lparr>ReqCtx := Some ctx\<rparr>)]))))"
proof -
  note d = detectContentType_fail [OF assms, of env]
  from assms have "snd (fst (file_Read 512 (fh\<lparr>ops := ops fh @ [OpStat]\<rparr>))) = Some err"
    by simp
  from detectContentType_fail [OF this, of env]
  have d1: "detectContentType env (fh\<lparr>ops := ops fh @ [OpStat]\<rparr>)
              = ((''application/octet-stream'', Some err),
                 fh\<lparr>ops := ops fh @ [OpStat, OpRead 512]\<rparr>)"
    by simp
  from d d1 show ?thesis
    by (simp add: uploadChartHelper_def file_stream_def)
qed

theorem sniff_failure_ignored_witness:
  "snd (fst (file_Read 512 file_empty)) = Some (External ''EOF'') \<and>
   detectContentType env0 file_empty
     = ((''application/octet-stream'', Some (External ''EOF'')),
        file_empty\<lparr>ops := [OpRead 512]\<rparr>) \<and>
   uploadChartHelper env0 client_ok ctx_background ''api/charts'' file_empty
     = ((Some \<lparr>http_Response = \<lparr>StatusCode = 200, ReadAll = (Some '''', None)\<rparr>,
              Message = '''', Error = '''', Saved = False, Deleted = False, Healthy = False\<rparr>,
         None),
        file_empty\<lparr>ops := [OpStat, OpRead 512]\<rparr>,
        [Built upload_req_empty, Sent (upload_req_empty\<lparr>ReqCtx := Some ctx_background\<rparr>)])"
proof -
  have r: "snd (fst (file_Read 512 file_empty)) = Some (External ''EOF'')"
    and st: "stat file_empty = Inr \<lparr>IsDir = False, Size = 0\<rparr>" and o: "ops file_empty = []"
    and s: "file_stream file_empty = ''''"
    by (simp_all add: file_Read_def file_empty_def file_stream_def)
  have n: "NewUploadRequest env0 client_ok ''api/charts'' '''' 0 ''application/octet-stream''
             = Inr upload_req_empty"
    by (simp add: NewUploadRequest_def http_NewRequest_def Header_Set_def HasSuffix_def
          env0_def client_ok_def url0_def upload_req_empty_def userAgent_def)
  have dd: "Do env0 client_ok ctx_background upload_req_empty
          = (Some \<lparr>http_Response = \<lparr>StatusCode = 200, ReadAll = (Some '''', None)\<rparr>,
              Message = '''', Error = '''', Saved = False, Deleted = False, Healthy = False\<rparr>,
             None)"
    by (simp add: Do_def parseResponse_def client_ok_def transport_ok_def env0_def)
  from sniff_failure_ignored [OF r, of env0 client_ok ctx_background "''api/charts''"]
    r st o s n dd
  show ?thesis by simp
qed

subsection \<open>Client construction and request building\<close>

lemma HasSuffix_slash: "HasSuffix (p @ ''/'') ''/''"
  by (simp add: HasSuffix_def)

lemma NewClient_Inr:
  "NewClient env baseURL hc dc = Inr c \<Longrightarrow>
     HasSuffix (Path (BaseURL c)) ''/'' \<and> UserAgent c = ''go-chartmuseum''"
  by (auto simp add: NewClient_def Let_def userAgent_def HasSuffix_slash
           split: if_splits sum.splits)



text \<open>
  C7 as stated fails: \<^verbatim>\<open>NewRequest\<close> sets the User-Agent header only if the client's
  \<^verbatim>\<open>UserAgent\<close> field is not empty. On a client whose field is empty the request carries no
  User-Agent header.
\<close>

theorem NewRequest_no_user_agent_counterexample:
  "NewRequest env0 (client_ok\<lparr>UserAgent := ''''\<rparr>) ''DELETE'' ''api/charts/demo/1.0.0'' None
     = Inr delete_req0 \<and>
   Header delete_req0 ''User-Agent'' = None"
  by (simp add: NewRequest_def http_NewRequest_def Header_Set_def HasSuffix_def env0_def
        client_ok_def url0_def delete_req0_def mediaType_def)

text \<open>
  C7, amended. Every request built by \<^verbatim>\<open>NewRequest\<close> carries the Accept header
  \<^verbatim>\<open>application/vnd.chartmuseum.v0+json\<close>; it carries the client's \<^verbatim>\<open>UserAgent\<close> as
  User-Agent header whenever that is not empty, which holds for every client that
  \<^verbatim>\<open>NewClient\<close> returns (\<^verbatim>\<open>go-chartmuseum\<close>); Content-Type is \<^verbatim>\<open>application/json\<close> exactly
  when a body is supplied, and a supplied body is encoded with HTML escaping off.
\<close>

theorem NewRequest_headers:
  assumes "NewRequest env c method urlStr body = Inr req"
  shows "Header req ''Accept'' = Some ''application/vnd.chartmuseum.v0+json'' \<and>
         Header req ''User-Agent'' = (if UserAgent c \<noteq> '''' then Some (UserAgent c) else None) \<and>
         (\<forall>baseURL hc dc. NewClient env baseURL hc dc = Inr c \<longrightarrow>
            Header req ''User-Agent'' = Some ''go-chartmuseum'') \<and>
         Header req ''Content-Type''
           = (if body \<noteq> None then Some ''application/json'' else None) \<and>
         (\<forall>b. body = Some b \<longrightarrow>
            (\<exists>bytes. json_Encode env False b = Inr bytes \<and> Body req = Some bytes)) \<and>
         (body = None \<longrightarrow> Body req = None)"
proof -
  have ua: "UserAgent c = ''go-chartmuseum''" if "NewClient env baseURL hc dc = Inr c"
    for baseURL hc dc
    using NewClient_Inr [OF that] by simp
  from assms have
    "Header req ''Accept'' = Some ''application/vnd.chartmuseum.v0+json'' \<and>
     Header req ''User-Agent'' = (if UserAgent c \<noteq> '''' then Some (UserAgent c) else None) \<and>
     Header req ''Content-Type'' = (if body \<noteq> None then Some ''application/json'' else None) \<and>
     (\<forall>b. body = Some b \<longrightarrow>
        (\<exists>bytes. json_Encode env False b = Inr bytes \<and> Body req = Some bytes)) \<and>
     (body = None \<longrightarrow> Body req = None)"
    by (auto simp add: NewRequest_def http_NewRequest_def Header_Set_def mediaType_def Let_def
             split: if_splits sum.splits option.splits)
  with ua show ?thesis by auto
qed

theorem NewRequest_headers_witness:
  "NewRequest env0 client_ok ''POST'' ''api/charts'' (Some ()) = Inr json_req0 \<and>
   NewClient env0 ''/'' (Some transport_ok) transport_down = Inr client_ok \<and>
   Header json_req0 ''Accept'' = Some ''application/vnd.chartmuseum.v0+json'' \<and>
   Header json_req0 ''User-Agent'' = Some ''go-chartmuseum'' \<and>
   Header json_req0 ''Content-Type'' = Some ''application/json'' \<and>
   Body json_req0 = Some ''null''"
proof -
  have n: "NewRequest env0 client_ok ''POST'' ''api/charts'' (Some ()) = Inr json_req0"
    by (simp add: NewRequest_def http_NewRequest_def Header_Set_def HasSuffix_def env0_def
          client_ok_def url0_def json_req0_def mediaType_def userAgent_def)
  have nc: "NewClient env0 ''/'' (Some transport_ok) transport_down = Inr client_ok"
    by (simp add: NewClient_def HasSuffix_def env0_def client_ok_def url0_def)
  have e: "json_Encode env0 False () = Inr ''null''"
    by (simp add: env0_def)
  have "Header json_req0 ''Accept'' = Some ''application/vnd.chartmuseum.v0+json'' \<and>
        Header json_req0 ''User-Agent'' = Some ''go-chartmuseum'' \<and>
        Header json_req0 ''Content-Type'' = Some ''application/json'' \<and>
        Body json_req0 = Some ''null''"
    using NewRequest_headers [OF n] nc e by auto
  with n nc show ?thesis by simp
qed

end
